theory Spec2Isabelle
  imports Complex_Main "HOL-Library.Word"
begin

section \<open>The draw pool of the OTClient graphics framework\<close>

text \<open>
  A shallow embedding of the header that declares the classes \<^verbatim>\<open>DrawPool\<close> and
  \<^verbatim>\<open>DrawBuffer\<close>. Member functions take the object and return the changed
  object; an access that is undefined behaviour in C++ (an index past the end of a
  vector or an array, the value of an empty \<^verbatim>\<open>std::optional\<close>) is an error
  value.

  Classes the header only names (\<^verbatim>\<open>Matrix3\<close>, \<^verbatim>\<open>Color\<close>, \<^verbatim>\<open>Rect\<close>,
  \<^verbatim>\<open>Point\<close>, the closure type) are type parameters \<open>'m\<close>, \<open>'c\<close>, \<open>'r\<close>,
  \<open>'p\<close>, \<open>'a\<close>; their \<^verbatim>\<open>==\<close> is the equality of the type. A smart or raw
  pointer is the address it holds, \<open>None\<close> for \<^verbatim>\<open>nullptr\<close>. \<^verbatim>\<open>size_t\<close> is a
  64-bit word.
\<close>

subsection \<open>Enumerations\<close>

datatype DrawPoolType = MAP | CREATURE_INFORMATION | LIGHT | TEXT | FOREGROUND | UNKNOW

datatype DrawOrder = NONE | FIRST | SECOND | THIRD | FOURTH | FIFTH | LAST

text \<open>The enumerators' values: \<^verbatim>\<open>NONE = -1\<close>, then counting from 0.\<close>

fun DrawOrder_value :: "DrawOrder \<Rightarrow> int" where
  "DrawOrder_value NONE = - 1"
| "DrawOrder_value FIRST = 0"
| "DrawOrder_value SECOND = 1"
| "DrawOrder_value THIRD = 2"
| "DrawOrder_value FOURTH = 3"
| "DrawOrder_value FIFTH = 4"
| "DrawOrder_value LAST = 5"

datatype DrawMethodType = RECT | TRIANGLE | REPEATED_RECT | BOUNDING_RECT | UPSIDEDOWN_RECT

type_synonym ptr = "nat option"

type_synonym size_t = "64 word"

subsection \<open>DrawBuffer\<close>

record 'p DrawBuffer =
  m_i :: "32 word"
  m_agroup :: bool
  m_order :: DrawOrder
  m_ref :: 'p
  m_hashs :: "size_t list"
  m_coords :: ptr

text \<open>
  The constructor \<^verbatim>\<open>DrawBuffer(order, agroup = true)\<close> with the members' default
  initialisers; \<open>p0\<close> is the default-constructed \<^verbatim>\<open>Point\<close>.
\<close>

definition DrawBuffer_new :: "'p \<Rightarrow> DrawOrder \<Rightarrow> bool \<Rightarrow> 'p DrawBuffer" where
  "DrawBuffer_new p0 order' agroup' =
     \<lparr>m_i = - 1, m_agroup = agroup', m_order = order', m_ref = p0, m_hashs = [], m_coords = None\<rparr>"

definition agroup :: "bool \<Rightarrow> 'p DrawBuffer \<Rightarrow> 'p DrawBuffer" where
  "agroup v b = b\<lparr>m_agroup := v\<rparr>"

definition setOrder :: "DrawOrder \<Rightarrow> 'p DrawBuffer \<Rightarrow> 'p DrawBuffer" where
  "setOrder order' b = b\<lparr>m_order := order'\<rparr>"

text \<open>\<^verbatim>\<open>buffer->m_i = -2; // identifier to say it is a temporary buffer.\<close>\<close>

definition createTemporaryBuffer :: "'p \<Rightarrow> DrawOrder \<Rightarrow> 'p DrawBuffer" where
  "createTemporaryBuffer p0 order' = (DrawBuffer_new p0 order' True)\<lparr>m_i := - 2\<rparr>"

text \<open>\<^verbatim>\<open>m_i > -1\<close> on a signed 32-bit \<^verbatim>\<open>int\<close>.\<close>

definition isValid :: "'p DrawBuffer \<Rightarrow> bool" where
  "isValid b = (- 1 <s m_i b)"

definition isTemporary :: "'p DrawBuffer \<Rightarrow> bool" where
  "isTemporary b = (m_i b = - 2)"

definition invalidate :: "'p DrawBuffer \<Rightarrow> 'p DrawBuffer" where
  "invalidate b = b\<lparr>m_i := - 1\<rparr>"

text \<open>
  \<^verbatim>\<open>if (m_ref != p) { m_ref = p; invalidate(); } return isValid();\<close>
  The result is the returned flag and the buffer after the call.
\<close>

definition validate :: "'p \<Rightarrow> 'p DrawBuffer \<Rightarrow> bool \<times> 'p DrawBuffer" where
  "validate p b =
     (let b' = (if m_ref b \<noteq> p then invalidate (b\<lparr>m_ref := p\<rparr>) else b)
      in (isValid b', b'))"

text \<open>A caller's operations on a buffer, run in order.\<close>

datatype 'p BufferOp = Validate 'p | Invalidate

fun applyOp :: "'p BufferOp \<Rightarrow> 'p DrawBuffer \<Rightarrow> 'p DrawBuffer" where
  "applyOp (Validate p) b = snd (validate p b)"
| "applyOp Invalidate b = invalidate b"

definition applyOps :: "'p BufferOp list \<Rightarrow> 'p DrawBuffer \<Rightarrow> 'p DrawBuffer" where
  "applyOps ops b = fold applyOp ops b"

subsection \<open>PoolState\<close>

text \<open>
  Modelled from the spec: the enumerations \<^verbatim>\<open>CompositionMode\<close>,
  \<^verbatim>\<open>BlendEquation\<close> and \<^verbatim>\<open>DrawMode\<close> are declared outside the sources at
  hand. The header uses \<^verbatim>\<open>CompositionMode::NORMAL\<close>, \<^verbatim>\<open>BlendEquation::ADD\<close> and
  \<^verbatim>\<open>DrawMode::TRIANGLES\<close>; the spec lists Normal, Multiply, Add, ..., then Add,
  Subtract, ..., then Triangles, TriangleStrip, .... The last constructor of each type
  stands for the enumerators the spec leaves out.
\<close>

datatype CompositionMode =
  CompositionMode_NORMAL | CompositionMode_MULTIPLY | CompositionMode_ADD | CompositionMode_OTHER nat

datatype BlendEquation = BlendEquation_ADD | BlendEquation_SUBTRACT | BlendEquation_OTHER nat

datatype DrawMode = DrawMode_TRIANGLES | DrawMode_TRIANGLE_STRIP | DrawMode_OTHER nat

text \<open>
  \<^verbatim>\<open>float opacity\<close> is the real number the float denotes (the spec keeps opacity
  within 0 and 1, so it is never a NaN, and \<^verbatim>\<open>==\<close> on such floats is equality of
  the numbers).
\<close>

record ('m, 'c, 'r, 'a) PoolState =
  transformMatrix :: 'm
  color :: 'c
  opacity :: real
  compositionMode :: CompositionMode
  blendEquation :: BlendEquation
  clipRect :: 'r
  texture :: ptr
  shaderProgram :: ptr
  action :: "'a option"

text \<open>
  The default member initialisers of \<^verbatim>\<open>PoolState\<close>; \<open>m0\<close>, \<open>c0\<close> and \<open>r0\<close>
  are the default-constructed \<^verbatim>\<open>Matrix3\<close>, \<^verbatim>\<open>Color\<close> and \<^verbatim>\<open>Rect\<close>.
\<close>

definition PoolState_new :: "'m \<Rightarrow> 'c \<Rightarrow> 'r \<Rightarrow> ('m, 'c, 'r, 'a) PoolState" where
  "PoolState_new m0 c0 r0 =
     \<lparr>transformMatrix = m0, color = c0, opacity = 1,
      compositionMode = CompositionMode_NORMAL, blendEquation = BlendEquation_ADD,
      clipRect = r0, texture = None, shaderProgram = None, action = None\<rparr>"

text \<open>\<^verbatim>\<open>PoolState::operator==\<close>: eight comparisons; \<^verbatim>\<open>action\<close> is not among them.\<close>

definition PoolState_eq :: "('m, 'c, 'r, 'a) PoolState \<Rightarrow> ('m, 'c, 'r, 'a) PoolState \<Rightarrow> bool" where
  "PoolState_eq s1 s2 =
     (transformMatrix s1 = transformMatrix s2 \<and>
      color s1 = color s2 \<and>
      opacity s1 = opacity s2 \<and>
      compositionMode s1 = compositionMode s2 \<and>
      blendEquation s1 = blendEquation s2 \<and>
      clipRect s1 = clipRect s2 \<and>
      texture s1 = texture s2 \<and>
      shaderProgram s1 = shaderProgram s2)"

subsection \<open>DrawMethod and DrawObject\<close>

record ('r, 'p) DrawMethod =
  type :: DrawMethodType
  rects :: "('r \<times> 'r) option"
  points :: "('p \<times> 'p \<times> 'p) option"
  dest :: "'p option"
  intValue :: "16 word"

datatype error = ArrayIndexOutOfBounds | VectorIndexOutOfBounds | EmptyOptional

text \<open>
  \<^verbatim>\<open>struct DrawObject\<close>; the member \<^verbatim>\<open>method\<close> is the field \<open>method'\<close>.
\<close>

record ('m, 'c, 'r, 'p, 'a) DrawObject =
  drawMode :: DrawMode
  buffer :: ptr
  state :: "('m, 'c, 'r, 'a) PoolState option"
  method' :: "('r, 'p) DrawMethod option"
  methods :: "('r, 'p) DrawMethod list option"
  action :: "'a option"

text \<open>The three constructors of \<^verbatim>\<open>DrawObject\<close>.\<close>

definition DrawObject_action :: "'a option \<Rightarrow> ('m, 'c, 'r, 'p, 'a) DrawObject" where
  "DrawObject_action f =
     \<lparr>drawMode = DrawMode_TRIANGLES, buffer = None, state = None, method' = None,
      methods = None, action = f\<rparr>"

definition DrawObject_buffer ::
  "('m, 'c, 'r, 'a) PoolState \<Rightarrow> ptr \<Rightarrow> ('m, 'c, 'r, 'p, 'a) DrawObject" where
  "DrawObject_buffer st buf =
     \<lparr>drawMode = DrawMode_TRIANGLES, buffer = buf, state = Some st, method' = None,
      methods = None, action = None\<rparr>"

definition DrawObject_method ::
  "DrawMode \<Rightarrow> ('m, 'c, 'r, 'a) PoolState \<Rightarrow> ('r, 'p) DrawMethod
     \<Rightarrow> ('m, 'c, 'r, 'p, 'a) DrawObject" where
  "DrawObject_method dm st m =
     \<lparr>drawMode = dm, buffer = None, state = Some st, method' = Some m,
      methods = None, action = None\<rparr>"

text \<open>
  \<^verbatim>\<open>addMethod\<close>: when there is no method list yet, the list is created and the
  single method is copied into it (\<^verbatim>\<open>*this->method\<close>, undefined on an empty
  optional); then the draw mode becomes \<^verbatim>\<open>TRIANGLES\<close> and the new method goes to
  the back of the list.
\<close>

definition addMethod ::
  "('r, 'p) DrawMethod \<Rightarrow> ('m, 'c, 'r, 'p, 'a) DrawObject
     \<Rightarrow> error + ('m, 'c, 'r, 'p, 'a) DrawObject" where
  "addMethod m obj =
     (case methods obj of
        None \<Rightarrow>
          (case method' obj of
             None \<Rightarrow> Inl EmptyOptional
           | Some m1 \<Rightarrow>
               Inr (obj\<lparr>methods := Some ([m1] @ [m]), drawMode := DrawMode_TRIANGLES\<rparr>))
      | Some ms \<Rightarrow> Inr (obj\<lparr>drawMode := DrawMode_TRIANGLES, methods := Some (ms @ [m])\<rparr>))"

subsection \<open>DrawPool\<close>

text \<open>
  The members of \<^verbatim>\<open>DrawPool\<close>, but for the refresh timer, which is a clock outside
  the model. \<^verbatim>\<open>m_objects\<close> is the two-dimensional array of vectors, read at
  a floor and an order; its bounds are checked where it is indexed.
\<close>

record ('m, 'c, 'r, 'p, 'a) DrawPool =
  m_enabled :: bool
  m_alwaysGroupDrawings :: bool
  m_autoUpdate :: bool
  m_currentOrder :: "8 word"
  m_currentFloor :: "8 word"
  m_refreshTimeMS :: "16 word"
  m_state :: "('m, 'c, 'r, 'a) PoolState"
  m_type :: DrawPoolType
  m_status :: "size_t \<times> size_t"
  m_objects :: "nat \<Rightarrow> nat \<Rightarrow> ('m, 'c, 'r, 'p, 'a) DrawObject list"
  m_objectsByhash :: "size_t \<rightharpoonup> ('m, 'c, 'r, 'p, 'a) DrawObject"

definition DrawPool_new :: "'m \<Rightarrow> 'c \<Rightarrow> 'r \<Rightarrow> ('m, 'c, 'r, 'p, 'a) DrawPool" where
  "DrawPool_new m0 c0 r0 =
     \<lparr>m_enabled = True, m_alwaysGroupDrawings = False, m_autoUpdate = False,
      m_currentOrder = 0, m_currentFloor = 0, m_refreshTimeMS = 0,
      m_state = PoolState_new m0 c0 r0, m_type = UNKNOW, m_status = (1, 0),
      m_objects = (\<lambda>z order'. []), m_objectsByhash = Map.empty\<rparr>"

text \<open>
  \<^verbatim>\<open>static constexpr uint8_t ARR_MAX_Z = MAX_Z + 1\<close>. The constant \<^verbatim>\<open>MAX_Z\<close> is
  defined outside the sources at hand and is a parameter here; the sum is an \<^verbatim>\<open>int\<close>
  narrowed to eight bits.
\<close>

definition ARR_MAX_Z :: "int \<Rightarrow> 8 word" where
  "ARR_MAX_Z MAX_Z = word_of_int (MAX_Z + 1)"

definition setEnable :: "bool \<Rightarrow> ('m, 'c, 'r, 'p, 'a) DrawPool \<Rightarrow> ('m, 'c, 'r, 'p, 'a) DrawPool" where
  "setEnable v s = s\<lparr>m_enabled := v\<rparr>"

definition isEnabled :: "('m, 'c, 'r, 'p, 'a) DrawPool \<Rightarrow> bool" where
  "isEnabled s = m_enabled s"

text \<open>\<^verbatim>\<open>void repaint() { m_status.first = 1; }\<close>\<close>

definition repaint :: "('m, 'c, 'r, 'p, 'a) DrawPool \<Rightarrow> ('m, 'c, 'r, 'p, 'a) DrawPool" where
  "repaint s = s\<lparr>m_status := (1, snd (m_status s))\<rparr>"

text \<open>
  \<^verbatim>\<open>m_objects[m_currentFloor][m_currentOrder]\<close>: the array has \<^verbatim>\<open>ARR_MAX_Z\<close>
  rows of \<^verbatim>\<open>static_cast<uint8_t>(DrawOrder::LAST)\<close> vectors.
\<close>

definition currentList ::
  "int \<Rightarrow> ('m, 'c, 'r, 'p, 'a) DrawPool \<Rightarrow> error + ('m, 'c, 'r, 'p, 'a) DrawObject list" where
  "currentList MAX_Z s =
     (if uint (m_currentFloor s) < uint (ARR_MAX_Z MAX_Z) \<and>
         uint (m_currentOrder s) < DrawOrder_value LAST
      then Inr (m_objects s (unat (m_currentFloor s)) (unat (m_currentOrder s)))
      else Inl ArrayIndexOutOfBounds)"

text \<open>
  \<^verbatim>\<open>return list[list.size() - 1];\<close> On an empty vector the unsigned index wraps
  around and is past the end.
\<close>

definition getLastDrawObject ::
  "int \<Rightarrow> ('m, 'c, 'r, 'p, 'a) DrawPool \<Rightarrow> error + ('m, 'c, 'r, 'p, 'a) DrawObject" where
  "getLastDrawObject MAX_Z s =
     (case currentList MAX_Z s of
        Inl e \<Rightarrow> Inl e
      | Inr list \<Rightarrow>
          if list = [] then Inl VectorIndexOutOfBounds else Inr (list ! (length list - 1)))"

text \<open>
  \<^verbatim>\<open>!lastDrawing ? m_state.opacity : getLastDrawObject().state->opacity\<close>, and the
  same for the clip rectangle; \<^verbatim>\<open>state->\<close> is undefined on an empty optional.
\<close>

definition getOpacity :: "int \<Rightarrow> bool \<Rightarrow> ('m, 'c, 'r, 'p, 'a) DrawPool \<Rightarrow> error + real" where
  "getOpacity MAX_Z lastDrawing s =
     (if \<not> lastDrawing then Inr (opacity (m_state s))
      else (case getLastDrawObject MAX_Z s of
              Inl e \<Rightarrow> Inl e
            | Inr obj \<Rightarrow>
                (case state obj of None \<Rightarrow> Inl EmptyOptional | Some st \<Rightarrow> Inr (opacity st))))"

definition getClipRect :: "int \<Rightarrow> bool \<Rightarrow> ('m, 'c, 'r, 'p, 'a) DrawPool \<Rightarrow> error + 'r" where
  "getClipRect MAX_Z lastDrawing s =
     (if \<not> lastDrawing then Inr (clipRect (m_state s))
      else (case getLastDrawObject MAX_Z s of
              Inl e \<Rightarrow> Inl e
            | Inr obj \<Rightarrow>
                (case state obj of None \<Rightarrow> Inl EmptyOptional | Some st \<Rightarrow> Inr (clipRect st))))"

text \<open>The reset operations of the header; \<open>r0\<close> is the value-initialised \<^verbatim>\<open>Rect\<close>.\<close>

definition resetOpacity :: "('m, 'c, 'r, 'p, 'a) DrawPool \<Rightarrow> ('m, 'c, 'r, 'p, 'a) DrawPool" where
  "resetOpacity s = s\<lparr>m_state := (m_state s)\<lparr>opacity := 1\<rparr>\<rparr>"

definition resetClipRect :: "'r \<Rightarrow> ('m, 'c, 'r, 'p, 'a) DrawPool \<Rightarrow> ('m, 'c, 'r, 'p, 'a) DrawPool" where
  "resetClipRect r0 s = s\<lparr>m_state := (m_state s)\<lparr>clipRect := r0\<rparr>\<rparr>"

definition resetShaderProgram :: "('m, 'c, 'r, 'p, 'a) DrawPool \<Rightarrow> ('m, 'c, 'r, 'p, 'a) DrawPool" where
  "resetShaderProgram s = s\<lparr>m_state := (m_state s)\<lparr>shaderProgram := None\<rparr>\<rparr>"

definition resetCompositionMode :: "('m, 'c, 'r, 'p, 'a) DrawPool \<Rightarrow> ('m, 'c, 'r, 'p, 'a) DrawPool" where
  "resetCompositionMode s = s\<lparr>m_state := (m_state s)\<lparr>compositionMode := CompositionMode_NORMAL\<rparr>\<rparr>"

definition resetBlendEquation :: "('m, 'c, 'r, 'p, 'a) DrawPool \<Rightarrow> ('m, 'c, 'r, 'p, 'a) DrawPool" where
  "resetBlendEquation s = s\<lparr>m_state := (m_state s)\<lparr>blendEquation := BlendEquation_ADD\<rparr>\<rparr>"

text \<open>
  \<^verbatim>\<open>m_objectsByhash.clear(); if (m_currentFloor < ARR_MAX_Z - 1) ++m_currentFloor;\<close>
  The comparison is made on \<^verbatim>\<open>int\<close>, after the integral promotions.
\<close>

definition flush :: "int \<Rightarrow> ('m, 'c, 'r, 'p, 'a) DrawPool \<Rightarrow> ('m, 'c, 'r, 'p, 'a) DrawPool" where
  "flush MAX_Z s =
     (let s1 = s\<lparr>m_objectsByhash := Map.empty\<rparr>
      in if uint (m_currentFloor s1) < uint (ARR_MAX_Z MAX_Z) - 1
         then s1\<lparr>m_currentFloor := m_currentFloor s1 + 1\<rparr>
         else s1)"

subsection \<open>Operations defined outside the header\<close>

text \<open>
  Modelled from the spec: \<^verbatim>\<open>DrawPool::resetState\<close> is declared in the header and
  defined in a source file that is not at hand. The spec (4.3): it restores the
  current PaintState's fields to defaults (color=white, opacity=1, clip=none,
  shader=none, composition=Normal, blend=Add). The model sets the colour to \<open>white\<close>
  (the \<^verbatim>\<open>Color\<close> constant, a parameter) and runs the header's five reset operations.
\<close>

definition resetState ::
  "'c \<Rightarrow> 'r \<Rightarrow> ('m, 'c, 'r, 'p, 'a) DrawPool \<Rightarrow> ('m, 'c, 'r, 'p, 'a) DrawPool" where
  "resetState white r0 s =
     resetBlendEquation (resetCompositionMode (resetShaderProgram (resetClipRect r0
       (resetOpacity (s\<lparr>m_state := (m_state s)\<lparr>color := white\<rparr>\<rparr>)))))"

text \<open>
  Modelled from the spec: \<^verbatim>\<open>DrawPool::canRepaint(bool)\<close> is declared in the header
  and defined in a source file that is not at hand. The spec (4.3): true if the pool's
  generation counters disagree or if a refresh timer elapsed; as a side effect, when
  \<^verbatim>\<open>autoUpdateStatus\<close> is set, brings the counters into agreement. Whether the
  timer has elapsed is the input \<open>elapsed\<close>. The spec does not say which counter
  takes the other's value: with \<open>fromFirst\<close> both become \<^verbatim>\<open>m_status.first\<close>,
  without it both become \<^verbatim>\<open>m_status.second\<close>.
\<close>

definition canRepaint ::
  "bool \<Rightarrow> bool \<Rightarrow> bool \<Rightarrow> ('m, 'c, 'r, 'p, 'a) DrawPool
     \<Rightarrow> bool \<times> ('m, 'c, 'r, 'p, 'a) DrawPool" where
  "canRepaint fromFirst elapsed autoUpdateStatus s =
     (fst (m_status s) \<noteq> snd (m_status s) \<or> elapsed,
      if autoUpdateStatus
      then (if fromFirst then s\<lparr>m_status := (fst (m_status s), fst (m_status s))\<rparr>
            else s\<lparr>m_status := (snd (m_status s), snd (m_status s))\<rparr>)
      else s)"

text \<open>
  Modelled from the spec: \<^verbatim>\<open>DrawPool::add\<close> and \<^verbatim>\<open>DrawPool::updateHash\<close> are
  declared in the header and defined in a source file that is not at hand; the
  definitions from here to \<open>add\<close> follow the five steps the spec gives for
  \<^verbatim>\<open>add\<close> (4.3). This one is the "fresh PaintState snapshot" of step 4, over which
  step 1 computes the state hash: the pool's current state with the colour and the
  texture of the call.
\<close>

definition snapshot ::
  "'c \<Rightarrow> ptr \<Rightarrow> ('m, 'c, 'r, 'p, 'a) DrawPool \<Rightarrow> ('m, 'c, 'r, 'a) PoolState" where
  "snapshot c t s = (m_state s)\<lparr>color := c, texture := t\<rparr>"

text \<open>
  Modelled from the spec: the write that ends steps 3 and 4 of \<^verbatim>\<open>add\<close>, whose body
  is not at hand. The current list is replaced by \<open>list\<close>. The spec does not say
  where the hash index is filled; the model enters the DrawObject under the combined
  hash here.
\<close>

definition store ::
  "('m, 'c, 'r, 'p, 'a) DrawObject list \<Rightarrow> size_t \<Rightarrow> ('m, 'c, 'r, 'p, 'a) DrawObject
     \<Rightarrow> ('m, 'c, 'r, 'p, 'a) DrawPool \<Rightarrow> ('m, 'c, 'r, 'p, 'a) DrawPool" where
  "store list h obj s =
     s\<lparr>m_objects := (\<lambda>z order'.
           if z = unat (m_currentFloor s) \<and> order' = unat (m_currentOrder s) then list
           else m_objects s z order'),
       m_objectsByhash := (m_objectsByhash s)(h \<mapsto> obj)\<rparr>"

text \<open>
  Modelled from the spec: steps 3 and 4 of \<^verbatim>\<open>add\<close>, whose body is not at hand.
  Step 3: if the immediately preceding DrawCall in the active bucket has an equal
  PaintState and the geometry is batchable into the same draw mode, the new method
  is appended to that DrawCall (\<open>addMethod\<close>); what is batchable is the parameter
  \<open>batchable\<close>, given the draw mode of the preceding DrawCall and the one asked
  for. Step 4: else a new DrawCall is opened with the snapshot, the method and the
  buffer's address.
\<close>

definition emit ::
  "(DrawMode \<Rightarrow> DrawMode \<Rightarrow> bool) \<Rightarrow> int \<Rightarrow> ('m, 'c, 'r, 'a) PoolState
     \<Rightarrow> ('r, 'p) DrawMethod \<Rightarrow> DrawMode \<Rightarrow> ptr \<Rightarrow> size_t
     \<Rightarrow> ('m, 'c, 'r, 'p, 'a) DrawPool \<Rightarrow> error + ('m, 'c, 'r, 'p, 'a) DrawPool" where
  "emit batchable MAX_Z st m dm buf h s =
     (case currentList MAX_Z s of
        Inl e \<Rightarrow> Inl e
      | Inr list \<Rightarrow>
          if list \<noteq> [] \<and>
             (case state (last list) of None \<Rightarrow> False | Some st' \<Rightarrow> PoolState_eq st' st) \<and>
             batchable (drawMode (last list)) dm
          then (case addMethod m (last list) of
                  Inl e \<Rightarrow> Inl e
                | Inr obj \<Rightarrow> Inr (store (butlast list @ [obj]) h obj s))
          else Inr (store (list @ [(DrawObject_method dm st m)\<lparr>buffer := buf\<rparr>]) h
                 ((DrawObject_method dm st m)\<lparr>buffer := buf\<rparr>) s))"

text \<open>
  Modelled from the spec: \<^verbatim>\<open>DrawPool::add\<close>, whose body is not at hand, by the
  steps of the spec (4.3).
  \<^enum> The combined hash of the state snapshot and the method is \<open>hashOf\<close>, a
    parameter (the spec gives no hash function).
  \<^enum> If an agroup-enabled DrawBuffer is supplied and its validation against the
    caller's reference point \<open>p\<close> succeeds and an entry with the combined hash is
    in the hash index, the call is a no-op.
  \<^enum> Else the call is emitted (steps 3 and 4, \<open>emit\<close>).
  \<^enum> If a DrawBuffer was supplied, the combined hash is appended to its hash history
    and it is marked validated against \<open>p\<close>: \<open>m_ref\<close> is \<open>p\<close> and \<open>m_i\<close>
    is 0, a valid value. A temporary buffer is never cached (spec 3 and 4.2) and is
    left as \<^verbatim>\<open>validate\<close> left it.

  DrawBuffers are shared between the caller and the pool, so they live in a store
  from addresses to buffers, and \<^verbatim>\<open>add\<close> runs on the pair of the store and the
  pool; an address outside the store is an error.
\<close>

datatype add_error = InvalidPointer | Access error

definition add ::
  "(('m, 'c, 'r, 'a) PoolState \<Rightarrow> ('r, 'p) DrawMethod \<Rightarrow> size_t)
     \<Rightarrow> (DrawMode \<Rightarrow> DrawMode \<Rightarrow> bool) \<Rightarrow> int \<Rightarrow> 'p
     \<Rightarrow> 'c \<Rightarrow> ptr \<Rightarrow> ('r, 'p) DrawMethod \<Rightarrow> DrawMode \<Rightarrow> ptr \<Rightarrow> ptr
     \<Rightarrow> (nat \<rightharpoonup> 'p DrawBuffer) \<times> ('m, 'c, 'r, 'p, 'a) DrawPool
     \<Rightarrow> add_error + (nat \<rightharpoonup> 'p DrawBuffer) \<times> ('m, 'c, 'r, 'p, 'a) DrawPool" where
  "add hashOf batchable MAX_Z p c t m dm drawBuffer coordsBuffer w =
     (let heap = fst w; s = snd w; st = snapshot c t s; h = hashOf st m
      in case drawBuffer of
           None \<Rightarrow>
             (case emit batchable MAX_Z st m dm None h s of
                Inl e \<Rightarrow> Inl (Access e)
              | Inr s' \<Rightarrow> Inr (heap, s'))
         | Some a \<Rightarrow>
             (case heap a of
                None \<Rightarrow> Inl InvalidPointer
              | Some b \<Rightarrow>
                  (let vb = (if m_agroup b then validate p b else (False, b))
                   in if fst vb \<and> h \<in> dom (m_objectsByhash s)
                      then Inr (heap(a \<mapsto> snd vb), s)
                      else (case emit batchable MAX_Z st m dm (Some a) h s of
                              Inl e \<Rightarrow> Inl (Access e)
                            | Inr s' \<Rightarrow>
                                Inr (heap(a \<mapsto>
                                       (if isTemporary b then snd vb
                                        else (snd vb)\<lparr>m_hashs := m_hashs (snd vb) @ [h],
                                               m_ref := p, m_i := 0\<rparr>)),
                                     s')))))"

text \<open>
  One call of \<^verbatim>\<open>add\<close> as data, with the caller's reference point; a frame is the
  list of its calls, run in order by \<open>addAll\<close>.
\<close>

record ('c, 'r, 'p) AddCall =
  call_ref :: 'p
  call_color :: 'c
  call_texture :: ptr
  call_method :: "('r, 'p) DrawMethod"
  call_drawMode :: DrawMode
  call_drawBuffer :: ptr
  call_coordsBuffer :: ptr


text \<open>
  The fast path of step 2 as a predicate on a call: it supplies a buffer of the store
  that is agroup-enabled and not temporary, the buffer validates against the call's
  reference point, and the combined hash is in the hash index.
\<close>

definition dedupHit ::
  "(('m, 'c, 'r, 'a) PoolState \<Rightarrow> ('r, 'p) DrawMethod \<Rightarrow> size_t)
     \<Rightarrow> (nat \<rightharpoonup> 'p DrawBuffer) \<times> ('m, 'c, 'r, 'p, 'a) DrawPool
     \<Rightarrow> ('c, 'r, 'p) AddCall \<Rightarrow> bool" where
  "dedupHit hashOf w k =
     (case call_drawBuffer k of
        None \<Rightarrow> False
      | Some a \<Rightarrow>
          (case fst w a of
             None \<Rightarrow> False
           | Some b \<Rightarrow>
               m_agroup b \<and> \<not> isTemporary b \<and> fst (validate (call_ref k) b) \<and>
               hashOf (snapshot (call_color k) (call_texture k) (snd w)) (call_method k)
                 \<in> dom (m_objectsByhash (snd w))))"




text \<open>\<^verbatim>\<open>flush()\<close> on the pool; the DrawBuffers of the store are not touched.\<close>

definition flushed ::
  "int \<Rightarrow> (nat \<rightharpoonup> 'p DrawBuffer) \<times> ('m, 'c, 'r, 'p, 'a) DrawPool
     \<Rightarrow> (nat \<rightharpoonup> 'p DrawBuffer) \<times> ('m, 'c, 'r, 'p, 'a) DrawPool" where
  "flushed MAX_Z w = (fst w, flush MAX_Z (snd w))"


subsection \<open>Example values\<close>





section \<open>Properties of DrawBuffer\<close>

lemma isValid_minus1: "m_i b = - 1 \<Longrightarrow> \<not> isValid b"
  by (simp add: isValid_def word_sless_alt)

lemma isValid_minus2: "m_i b = - 2 \<Longrightarrow> \<not> isValid b"
  by (simp add: isValid_def word_sless_alt)

lemma validate_same: "validate (m_ref b) b = (isValid b, b)"
  by (simp add: validate_def)

lemma validate_other:
  "p \<noteq> m_ref b \<Longrightarrow> validate p b = (False, b\<lparr>m_ref := p, m_i := - 1\<rparr>)"
  by (auto simp: validate_def invalidate_def isValid_def word_sless_alt)

text \<open>
  C2. \<^verbatim>\<open>validate(p)\<close> with \<open>p\<close> unequal to the stored reference point stores
  \<open>p\<close>, invalidates the buffer (\<open>m_i = -1\<close>) and returns false; with \<open>p\<close> equal
  to the stored reference point it leaves the buffer as it is and returns
  \<^verbatim>\<open>isValid()\<close>.
\<close>

theorem validate_reference_point:
  "(p \<noteq> m_ref b \<longrightarrow>
      validate p b = (False, b\<lparr>m_ref := p, m_i := - 1\<rparr>) \<and>
      m_ref (snd (validate p b)) = p \<and> \<not> isValid (snd (validate p b))) \<and>
   (p = m_ref b \<longrightarrow> validate p b = (isValid b, b))"
proof (cases "p = m_ref b")
  case True
  then show ?thesis by (simp add: validate_same)
next
  case False
  then have "validate p b = (False, b\<lparr>m_ref := p, m_i := - 1\<rparr>)"
    by (rule validate_other)
  with False show ?thesis by (simp add: isValid_minus1)
qed

theorem validate_reference_point_witness:
  "validate (3, 4) \<lparr>m_i = 0, m_agroup = True, m_order = FIRST, m_ref = (1::int, 2::int),
       m_hashs = [17], m_coords = None\<rparr>
     = (False, \<lparr>m_i = - 1, m_agroup = True, m_order = FIRST, m_ref = (3, 4),
       m_hashs = [17], m_coords = None\<rparr>) \<and>
   validate (1, 2) \<lparr>m_i = 0, m_agroup = True, m_order = FIRST, m_ref = (1::int, 2::int),
       m_hashs = [17], m_coords = None\<rparr>
     = (True, \<lparr>m_i = 0, m_agroup = True, m_order = FIRST, m_ref = (1, 2),
       m_hashs = [17], m_coords = None\<rparr>)"
  using validate_reference_point [of "(3, 4)" "\<lparr>m_i = 0, m_agroup = True, m_order = FIRST,
       m_ref = (1::int, 2::int), m_hashs = [17], m_coords = None\<rparr>"]
    validate_reference_point [of "(1, 2)" "\<lparr>m_i = 0, m_agroup = True, m_order = FIRST,
       m_ref = (1::int, 2::int), m_hashs = [17], m_coords = None\<rparr>"]
  by (simp add: isValid_def word_sless_alt)

text \<open>
  C9. A buffer made by \<^verbatim>\<open>createTemporaryBuffer\<close> answers false to
  \<^verbatim>\<open>validate(p)\<close> for every point \<open>p\<close>: with \<open>p\<close> equal to the stored
  reference point the sentinel \<open>-2\<close> is not greater than \<open>-1\<close>, and with any other
  \<open>p\<close> the buffer is invalidated first.
\<close>

theorem temporary_never_validates:
  "fst (validate p (createTemporaryBuffer p0 order')) = False"
proof (cases "p = p0")
  case True
  then show ?thesis
    by (simp add: validate_def createTemporaryBuffer_def DrawBuffer_new_def isValid_def
        word_sless_alt)
next
  case False
  then show ?thesis
    by (simp add: validate_def createTemporaryBuffer_def DrawBuffer_new_def isValid_def
        invalidate_def word_sless_alt)
qed

lemma applyOp_m_i_cases: "m_i (applyOp op b) = m_i b \<or> m_i (applyOp op b) = - 1"
  by (cases op) (simp_all add: validate_def invalidate_def Let_def)

lemma applyOp_invalid_stays: "m_i b = - 1 \<Longrightarrow> m_i (applyOp op b) = - 1"
  using applyOp_m_i_cases [of op b] by auto

lemma fold_invalid_stays: "m_i b = - 1 \<Longrightarrow> m_i (fold applyOp ops b) = - 1"
  by (induction ops arbitrary: b) (simp_all add: applyOp_invalid_stays)

lemma applyOp_temporary:
  "m_i b = - 2 \<Longrightarrow>
     (op = Validate (m_ref b) \<longrightarrow> applyOp op b = b) \<and>
     (op \<noteq> Validate (m_ref b) \<longrightarrow> m_i (applyOp op b) = - 1)"
  by (cases op) (auto simp: validate_def invalidate_def Let_def)

lemma fold_temporary:
  "m_i b = - 2 \<Longrightarrow>
     (m_i (fold applyOp ops b) = - 2) = (set ops \<subseteq> {Validate (m_ref b)})"
proof (induction ops arbitrary: b)
  case Nil
  then show ?case by simp
next
  case (Cons op ops)
  show ?case
  proof (cases "op = Validate (m_ref b)")
    case True
    with Cons.prems have "applyOp op b = b" using applyOp_temporary [of b op] by simp
    with Cons True show ?thesis by simp
  next
    case False
    with Cons.prems have "m_i (applyOp op b) = - 1" using applyOp_temporary [of b op] by simp
    then have "m_i (fold applyOp ops (applyOp op b)) = - 1" by (rule fold_invalid_stays)
    with False show ?thesis by simp
  qed
qed

lemma fold_never_valid:
  "m_i b = - 2 \<or> m_i b = - 1 \<Longrightarrow> \<not> isValid (fold applyOp ops b)"
proof (induction ops arbitrary: b)
  case Nil
  then show ?case by (auto simp: isValid_minus1 isValid_minus2)
next
  case (Cons op ops)
  from Cons.prems applyOp_m_i_cases [of op b]
  have "m_i (applyOp op b) = - 2 \<or> m_i (applyOp op b) = - 1" by auto
  then show ?case using Cons.IH by simp
qed

text \<open>
  C7 (as amended). A buffer made by \<^verbatim>\<open>createTemporaryBuffer\<close> carries the
  sentinel \<open>m_i = -2\<close>: it is temporary and not valid. Whatever sequence of
  \<^verbatim>\<open>validate\<close> and \<^verbatim>\<open>invalidate\<close> calls follows, the buffer is never valid;
  it is still temporary afterwards exactly when every call was a \<^verbatim>\<open>validate\<close>
  against the reference point it was created with.
\<close>

theorem temporary_under_operations:
  "isTemporary (createTemporaryBuffer p0 order') \<and>
   \<not> isValid (createTemporaryBuffer p0 order') \<and>
   \<not> isValid (applyOps ops (createTemporaryBuffer p0 order')) \<and>
   (isTemporary (applyOps ops (createTemporaryBuffer p0 order'))
      = (set ops \<subseteq> {Validate p0}))"
proof -
  let ?b = "createTemporaryBuffer p0 order'"
  have i: "m_i ?b = - 2" and r: "m_ref ?b = p0"
    by (simp_all add: createTemporaryBuffer_def DrawBuffer_new_def)
  have "isTemporary ?b" using i by (simp add: isTemporary_def)
  moreover have "\<not> isValid ?b" using i by (rule isValid_minus2)
  moreover have "\<not> isValid (applyOps ops ?b)"
    unfolding applyOps_def using i by (intro fold_never_valid) simp
  moreover have "isTemporary (applyOps ops ?b) = (set ops \<subseteq> {Validate p0})"
    unfolding applyOps_def isTemporary_def using fold_temporary [OF i, of ops] r by simp
  ultimately show ?thesis by simp
qed

theorem temporary_under_operations_witness:
  "isTemporary (applyOps [Validate (0, 0), Validate (0, 0)]
      (createTemporaryBuffer (0::int, 0::int) THIRD)) \<and>
   \<not> isValid (applyOps [Validate (0, 0), Validate (0, 0)]
      (createTemporaryBuffer (0::int, 0::int) THIRD))"
  using temporary_under_operations [of "(0::int, 0::int)" THIRD "[Validate (0, 0), Validate (0, 0)]"]
  by simp

text \<open>
  C7 as stated fails: \<^verbatim>\<open>validate\<close> with another point, and \<^verbatim>\<open>invalidate\<close>,
  overwrite the sentinel with \<open>-1\<close>, and the temporary buffer is then a plain
  invalid one.
\<close>

theorem temporary_lost_counterexample:
  "\<not> isTemporary (applyOps [Validate (1, 0)] (createTemporaryBuffer (0::int, 0::int) FIRST)) \<and>
   m_i (applyOps [Validate (1, 0)] (createTemporaryBuffer (0::int, 0::int) FIRST)) = - 1 \<and>
   \<not> isTemporary (applyOps [Invalidate] (createTemporaryBuffer (0::int, 0::int) FIRST)) \<and>
   m_i (applyOps [Invalidate] (createTemporaryBuffer (0::int, 0::int) FIRST)) = - 1"
  by (simp add: applyOps_def validate_def invalidate_def createTemporaryBuffer_def
      DrawBuffer_new_def isTemporary_def Let_def)

section \<open>Properties of DrawObject and PoolState\<close>

text \<open>
  C3. A DrawObject that holds the single method \<open>M1\<close> and no method list yet
  becomes, by \<^verbatim>\<open>addMethod(M2)\<close>, the same DrawObject with the method list
  \<open>[M1, M2]\<close>, in the order of submission, and the draw mode \<^verbatim>\<open>TRIANGLES\<close>: one
  DrawObject, nothing reordered.
\<close>

theorem addMethod_batches_in_order:
  assumes "method' obj = Some M1" and "methods obj = None"
  shows "addMethod M2 obj = Inr (obj\<lparr>methods := Some [M1, M2], drawMode := DrawMode_TRIANGLES\<rparr>)"
  using assms by (simp add: addMethod_def)

theorem addMethod_batches_in_order_witness:
  "addMethod \<lparr>type = TRIANGLE, rects = None, points = Some (1, 2, 3), dest = None, intValue = 0\<rparr>
     (DrawObject_method DrawMode_TRIANGLE_STRIP (PoolState_new (0::nat) (0::nat) (0::nat))
        \<lparr>type = RECT, rects = Some (4, 5), points = None, dest = None, intValue = 0\<rparr>
      :: (nat, nat, nat, nat, unit) DrawObject)
   = Inr \<lparr>drawMode = DrawMode_TRIANGLES, buffer = None,
       state = Some (PoolState_new 0 0 0), method' = Some \<lparr>type = RECT, rects = Some (4, 5), points = None, dest = None, intValue = 0\<rparr>,
       methods = Some [\<lparr>type = RECT, rects = Some (4, 5), points = None, dest = None, intValue = 0\<rparr>,
                       \<lparr>type = TRIANGLE, rects = None, points = Some (1, 2, 3), dest = None, intValue = 0\<rparr>],
       action = None\<rparr>"
  using addMethod_batches_in_order
    [of "DrawObject_method DrawMode_TRIANGLE_STRIP (PoolState_new (0::nat) (0::nat) (0::nat))
        \<lparr>type = RECT, rects = Some (4, 5), points = None, dest = None, intValue = 0\<rparr>
      :: (nat, nat, nat, nat, unit) DrawObject"
      "\<lparr>type = RECT, rects = Some (4, 5), points = None, dest = None, intValue = 0\<rparr>"
      "\<lparr>type = TRIANGLE, rects = None, points = Some (1, 2, 3), dest = None, intValue = 0\<rparr>"]
  by (simp add: DrawObject_method_def)

text \<open>
  C4. \<^verbatim>\<open>PoolState::operator==\<close> holds exactly when the transform matrix, colour,
  opacity, composition mode, blend equation, clip rectangle, texture and shader
  program of the two states are equal. The closure \<^verbatim>\<open>action\<close> has no part in it:
  replacing the closures of both states does not change the answer, and two states
  compare equal exactly when they are the same state once their closures are made
  the same.
\<close>

theorem PoolState_eq_structural:
  "PoolState_eq s1 s2 =
     (transformMatrix s1 = transformMatrix s2 \<and> color s1 = color s2 \<and>
      opacity s1 = opacity s2 \<and> compositionMode s1 = compositionMode s2 \<and>
      blendEquation s1 = blendEquation s2 \<and> clipRect s1 = clipRect s2 \<and>
      texture s1 = texture s2 \<and> shaderProgram s1 = shaderProgram s2) \<and>
   PoolState_eq (s1\<lparr>PoolState.action := a1\<rparr>) (s2\<lparr>PoolState.action := a2\<rparr>) = PoolState_eq s1 s2 \<and>
   PoolState_eq s1 s2 = (s1\<lparr>PoolState.action := a\<rparr> = s2\<lparr>PoolState.action := a\<rparr>)"
proof -
  have "PoolState_eq s1 s2 = (s1\<lparr>PoolState.action := a\<rparr> = s2\<lparr>PoolState.action := a\<rparr>)"
    by (cases s1, cases s2) (auto simp: PoolState_eq_def)
  then show ?thesis by (simp add: PoolState_eq_def)
qed

section \<open>Properties of DrawPool\<close>

lemma uint_ARR_MAX_Z: "0 \<le> MAX_Z \<Longrightarrow> MAX_Z < 255 \<Longrightarrow> uint (ARR_MAX_Z MAX_Z) = MAX_Z + 1"
proof -
  assume a: "0 \<le> MAX_Z" "MAX_Z < 255"
  have "uint (word_of_int (MAX_Z + 1) :: 8 word) = (MAX_Z + 1) mod 2 ^ 8"
    unfolding uint_word_of_int by simp
  also have "\<dots> = MAX_Z + 1" using a by simp
  finally show ?thesis by (simp only: ARR_MAX_Z_def)
qed

text \<open>
  C5. \<^verbatim>\<open>flush()\<close> empties the hash index and moves the floor cursor up by one,
  stopping at \<^verbatim>\<open>MAX_Z\<close>: the new cursor is \<open>min (old + 1) MAX_Z\<close> and stays
  below \<^verbatim>\<open>MAX_Z + 1\<close>. The cursor indexes the \<^verbatim>\<open>ARR_MAX_Z\<close> rows of
  \<^verbatim>\<open>m_objects\<close>, so it is at most \<^verbatim>\<open>MAX_Z\<close> before the call, and \<^verbatim>\<open>MAX_Z + 1\<close>
  fits the eight bits of \<^verbatim>\<open>ARR_MAX_Z\<close>.
\<close>

theorem flush_advances_floor:
  assumes "0 \<le> MAX_Z" and "MAX_Z < 255" and "uint (m_currentFloor s) \<le> MAX_Z"
  shows "m_objectsByhash (flush MAX_Z s) = Map.empty \<and>
         uint (m_currentFloor (flush MAX_Z s)) = min (uint (m_currentFloor s) + 1) MAX_Z \<and>
         uint (m_currentFloor (flush MAX_Z s)) < MAX_Z + 1"
proof -
  have a: "uint (ARR_MAX_Z MAX_Z) = MAX_Z + 1"
    using assms by (simp add: uint_ARR_MAX_Z)
  show ?thesis
  proof (cases "uint (m_currentFloor s) < MAX_Z")
    case True
    then have "uint (m_currentFloor s) + 1 < 256" using assms by simp
    then have "uint (m_currentFloor s + 1) = uint (m_currentFloor s) + 1"
      by (simp add: uint_word_ariths)
    with True a show ?thesis by (simp add: flush_def Let_def)
  next
    case False
    with assms have "uint (m_currentFloor s) = MAX_Z" by simp
    with a show ?thesis by (simp add: flush_def Let_def)
  qed
qed

theorem flush_advances_floor_witness:
  "uint (m_currentFloor (flush 15
      ((DrawPool_new (0::nat) (0::nat) (0::nat) :: (nat, nat, nat, nat, unit) DrawPool)
         \<lparr>m_currentFloor := 3, m_objectsByhash := [9 \<mapsto> DrawObject_action None]\<rparr>))) = 4 \<and>
   m_objectsByhash (flush 15
      ((DrawPool_new (0::nat) (0::nat) (0::nat) :: (nat, nat, nat, nat, unit) DrawPool)
         \<lparr>m_currentFloor := 3, m_objectsByhash := [9 \<mapsto> DrawObject_action None]\<rparr>)) = Map.empty \<and>
   uint (m_currentFloor (flush 15
      ((DrawPool_new (0::nat) (0::nat) (0::nat) :: (nat, nat, nat, nat, unit) DrawPool)
         \<lparr>m_currentFloor := 15\<rparr>))) = 15"
  using flush_advances_floor [of 15
      "(DrawPool_new (0::nat) (0::nat) (0::nat) :: (nat, nat, nat, nat, unit) DrawPool)
         \<lparr>m_currentFloor := 3, m_objectsByhash := [9 \<mapsto> DrawObject_action None]\<rparr>"]
    flush_advances_floor [of 15
      "(DrawPool_new (0::nat) (0::nat) (0::nat) :: (nat, nat, nat, nat, unit) DrawPool)
         \<lparr>m_currentFloor := 15\<rparr>"]
  by (simp add: DrawPool_new_def)

lemma repaint_idem: "repaint (repaint s) = repaint s"
  by (simp add: repaint_def)

lemma repaint_funpow: "0 < n \<Longrightarrow> (repaint ^^ n) s = repaint s"
proof (induction n)
  case 0
  then show ?case by simp
next
  case (Suc n)
  then show ?case by (cases "n = 0") (simp_all add: repaint_idem)
qed

text \<open>
  C6. Any number \<open>n > 0\<close> of \<^verbatim>\<open>repaint()\<close> calls in a row leaves the pool as a
  single call does. The next \<^verbatim>\<open>canRepaint(true)\<close> brings the two counters of
  \<^verbatim>\<open>m_status\<close> to the same value, and it answers true when the second counter
  was not already 1 or the timer has elapsed; a further \<^verbatim>\<open>canRepaint(true)\<close>
  before the timer elapses answers false and changes nothing: one acknowledgment,
  not \<open>n\<close>.
\<close>

theorem repaint_coalesces:
  assumes "0 < n"
  shows "(repaint ^^ n) s = repaint s \<and>
         fst (m_status (snd (canRepaint d e True ((repaint ^^ n) s))))
           = snd (m_status (snd (canRepaint d e True ((repaint ^^ n) s)))) \<and>
         canRepaint d False True (snd (canRepaint d e True ((repaint ^^ n) s)))
           = (False, snd (canRepaint d e True ((repaint ^^ n) s))) \<and>
         fst (canRepaint d e True ((repaint ^^ n) s)) = (snd (m_status s) \<noteq> 1 \<or> e)"
proof -
  have r: "(repaint ^^ n) s = repaint s" using assms by (rule repaint_funpow)
  show ?thesis unfolding r by (auto simp: canRepaint_def repaint_def)
qed

theorem repaint_coalesces_witness:
  "(repaint ^^ 3) (DrawPool_new (0::nat) (0::nat) (0::nat) :: (nat, nat, nat, nat, unit) DrawPool)
     = repaint (DrawPool_new 0 0 0) \<and>
   fst (canRepaint True False True
     ((repaint ^^ 3) (DrawPool_new (0::nat) (0::nat) (0::nat) :: (nat, nat, nat, nat, unit) DrawPool))) \<and>
   m_status (snd (canRepaint True False True
     ((repaint ^^ 3) (DrawPool_new (0::nat) (0::nat) (0::nat) :: (nat, nat, nat, nat, unit) DrawPool))))
     = (1, 1) \<and>
   \<not> fst (canRepaint True False True (snd (canRepaint True False True
     ((repaint ^^ 3) (DrawPool_new (0::nat) (0::nat) (0::nat) :: (nat, nat, nat, nat, unit) DrawPool)))))"
  using repaint_coalesces [of 3 "DrawPool_new (0::nat) (0::nat) (0::nat) :: (nat, nat, nat, nat, unit) DrawPool" True False]
  by (simp add: DrawPool_new_def canRepaint_def repaint_def)

text \<open>
  C8. After \<^verbatim>\<open>resetState()\<close> the current state has colour white, opacity 1, the
  empty clip rectangle, no shader program, composition mode \<^verbatim>\<open>NORMAL\<close> and blend
  equation \<^verbatim>\<open>ADD\<close>; each of the header's five reset operations sets its own field
  to that default.
\<close>

theorem reset_restores_defaults:
  "color (m_state (resetState white r0 s)) = white \<and>
   opacity (m_state (resetState white r0 s)) = 1 \<and>
   clipRect (m_state (resetState white r0 s)) = r0 \<and>
   shaderProgram (m_state (resetState white r0 s)) = None \<and>
   compositionMode (m_state (resetState white r0 s)) = CompositionMode_NORMAL \<and>
   blendEquation (m_state (resetState white r0 s)) = BlendEquation_ADD \<and>
   opacity (m_state (resetOpacity s)) = 1 \<and>
   clipRect (m_state (resetClipRect r0 s)) = r0 \<and>
   shaderProgram (m_state (resetShaderProgram s)) = None \<and>
   compositionMode (m_state (resetCompositionMode s)) = CompositionMode_NORMAL \<and>
   blendEquation (m_state (resetBlendEquation s)) = BlendEquation_ADD"
  by (simp add: resetState_def resetOpacity_def resetClipRect_def resetShaderProgram_def
      resetCompositionMode_def resetBlendEquation_def)

lemma getLastDrawObject_Inr:
  "(\<exists>obj. getLastDrawObject MAX_Z s = Inr obj) = (\<exists>list. currentList MAX_Z s = Inr list \<and> list \<noteq> [])"
  by (auto simp: getLastDrawObject_def split: sum.splits)

lemma getLastDrawObject_last:
  "currentList MAX_Z s = Inr list \<Longrightarrow> list \<noteq> [] \<Longrightarrow> getLastDrawObject MAX_Z s = Inr (last list)"
  by (simp add: getLastDrawObject_def last_conv_nth)

text \<open>
  C10. \<^verbatim>\<open>getLastDrawObject\<close> returns an object exactly when the current list
  exists and is not empty; \<^verbatim>\<open>getOpacity(true)\<close> and \<^verbatim>\<open>getClipRect(true)\<close> return
  a value exactly when, in addition, the last DrawObject of that list carries a
  state. Without \<^verbatim>\<open>lastDrawing\<close> both read the pool's own state and cannot fail.
\<close>

theorem getLastDrawObject_precondition:
  "(\<exists>obj. getLastDrawObject MAX_Z s = Inr obj)
      = (\<exists>list. currentList MAX_Z s = Inr list \<and> list \<noteq> []) \<and>
   (\<exists>x. getOpacity MAX_Z True s = Inr x)
      = (\<exists>list. currentList MAX_Z s = Inr list \<and> list \<noteq> [] \<and> state (last list) \<noteq> None) \<and>
   (\<exists>r. getClipRect MAX_Z True s = Inr r)
      = (\<exists>list. currentList MAX_Z s = Inr list \<and> list \<noteq> [] \<and> state (last list) \<noteq> None) \<and>
   getOpacity MAX_Z False s = Inr (opacity (m_state s)) \<and>
   getClipRect MAX_Z False s = Inr (clipRect (m_state s))"
proof -
  have o: "(\<exists>x. getOpacity MAX_Z True s = Inr x)
      = (\<exists>list. currentList MAX_Z s = Inr list \<and> list \<noteq> [] \<and> state (last list) \<noteq> None)"
    by (auto simp: getOpacity_def getLastDrawObject_def last_conv_nth
        split: sum.splits option.splits)
  have c: "(\<exists>r. getClipRect MAX_Z True s = Inr r)
      = (\<exists>list. currentList MAX_Z s = Inr list \<and> list \<noteq> [] \<and> state (last list) \<noteq> None)"
    by (auto simp: getClipRect_def getLastDrawObject_def last_conv_nth
        split: sum.splits option.splits)
  show ?thesis using o c getLastDrawObject_Inr [of MAX_Z s]
    by (simp add: getOpacity_def getClipRect_def)
qed

theorem getLastDrawObject_precondition_witness:
  "getOpacity 15 True (DrawPool_new (0::nat) (0::nat) (0::nat) :: (nat, nat, nat, nat, unit) DrawPool)
     = Inl VectorIndexOutOfBounds \<and>
   getOpacity 15 True
     ((DrawPool_new (0::nat) (0::nat) (0::nat) :: (nat, nat, nat, nat, unit) DrawPool)
        \<lparr>m_objects := (\<lambda>z order'. [DrawObject_buffer ((PoolState_new 0 0 0)\<lparr>opacity := 1 / 2\<rparr>) None,
                                        DrawObject_action None])\<rparr>)
     = Inl EmptyOptional \<and>
   getOpacity 15 True
     ((DrawPool_new (0::nat) (0::nat) (0::nat) :: (nat, nat, nat, nat, unit) DrawPool)
        \<lparr>m_objects := (\<lambda>z order'. [DrawObject_action None,
                                        DrawObject_buffer ((PoolState_new 0 0 0)\<lparr>opacity := 1 / 2\<rparr>) None])\<rparr>)
     = Inr (1 / 2)"
  using getLastDrawObject_precondition [of 15 "DrawPool_new (0::nat) (0::nat) (0::nat) :: (nat, nat, nat, nat, unit) DrawPool"]
  by (simp add: getOpacity_def getLastDrawObject_def currentList_def ARR_MAX_Z_def
      DrawPool_new_def DrawObject_buffer_def DrawObject_action_def)






















lemma flush_index: "m_objectsByhash (flush MAX_Z s) = Map.empty"
  by (simp add: flush_def Let_def)

lemma flush_forgets: "\<not> dedupHit hashOf (flushed MAX_Z w) k"
proof (cases "call_drawBuffer k")
  case None
  then show ?thesis by (simp add: dedupHit_def)
next
  case (Some a)
  show ?thesis
  proof (cases "fst (flushed MAX_Z w) a")
    case None
    with Some show ?thesis by (simp add: dedupHit_def)
  next
    case (Some b)
    have "snd (flushed MAX_Z w) = flush MAX_Z (snd w)" by (simp add: flushed_def)
    then have "m_objectsByhash (snd (flushed MAX_Z w)) = Map.empty" by (simp add: flush_index)
    with \<open>call_drawBuffer k = Some a\<close> Some show ?thesis by (simp add: dedupHit_def)
  qed
qed









end
